theory Spec2Isabelle
  imports Main
begin

section \<open>The Karmen view model of karmen.js\<close>

text \<open>
  A shallow embedding of \<^verbatim>\<open>src/octoprint_karmen/static/js/karmen.js\<close> (the second,
  current view model of that file, lines 85 to 213): the push-message handler
  \<^verbatim>\<open>onDataUpdaterPluginMessage\<close>, the version comparison \<^verbatim>\<open>versionCompare\<close> and the
  continuation of \<^verbatim>\<open>performCheck\<close> that raises the notification.
\<close>

subsection \<open>JavaScript values\<close>

text \<open>
  The attributes of a push message arrive as JSON. The values modelled are the absent
  attribute (\<^verbatim>\<open>undefined\<close>), \<^verbatim>\<open>null\<close>, booleans, strings and arrays of such values; JSON
  numbers and objects are left out.
\<close>

datatype jsval = Undefined | Null | Bool bool | Str string | Array "jsval list"

text \<open>
  A string is a list of 8-bit characters. The code looks at the characters only to find
  the dot, the ASCII digits and the ASCII letters, and orders strings only after they
  have passed \<^verbatim>\<open>isValidPart\<close>, so nothing depends on how a character beyond ASCII is
  encoded.
\<close>

text \<open>ToBoolean: what \<^verbatim>\<open>if (v)\<close> and \<^verbatim>\<open>v ? a : b\<close> test.\<close>

fun truthy :: "jsval \<Rightarrow> bool" where
  "truthy Undefined = False"
| "truthy Null = False"
| "truthy (Bool b) = b"
| "truthy (Str s) = (s \<noteq> [])"
| "truthy (Array xs) = True"

text \<open>\<^verbatim>\<open>pieces.join(sep)\<close> on strings.\<close>

fun join :: "string list \<Rightarrow> string \<Rightarrow> string" where
  "join [] sep = []"
| "join [x] sep = x"
| "join (x # y # ys) sep = x @ sep @ join (y # ys) sep"

text \<open>
  ToString: what a template literal \<^verbatim>\<open>`${v}`\<close> inserts. An array converts by
  \<^verbatim>\<open>Array.prototype.toString\<close>, which joins the elements with commas, an element that is
  \<^verbatim>\<open>undefined\<close> or \<^verbatim>\<open>null\<close> giving the empty string.
\<close>

fun to_string :: "jsval \<Rightarrow> string" where
  "to_string Undefined = ''undefined''"
| "to_string Null = ''null''"
| "to_string (Bool b) = (if b then ''true'' else ''false'')"
| "to_string (Str s) = s"
| "to_string (Array xs) =
     join (map (\<lambda>x. if x = Undefined \<or> x = Null then [] else to_string x) xs) '',''"

text \<open>
  The loose equality \<^verbatim>\<open>v == 'literal'\<close> for a string literal that is no numeral, as the
  four status words are. A string is equal to the literal when it is the same string. An
  array is first converted to a primitive, which is its string conversion, and that
  string is compared, so \<^verbatim>\<open>["connected"] == 'connected'\<close> holds. \<^verbatim>\<open>undefined\<close> and \<^verbatim>\<open>null\<close>
  equal only each other, and a boolean is compared as the number 0 or 1 with the
  literal's number value, which is NaN.
\<close>

fun eq_literal :: "jsval \<Rightarrow> string \<Rightarrow> bool" where
  "eq_literal (Str s) lit = (s = lit)"
| "eq_literal (Array xs) lit = (to_string (Array xs) = lit)"
| "eq_literal _ lit = False"

text \<open>An object is a dictionary of attributes; reading a missing attribute gives \<^verbatim>\<open>undefined\<close>.\<close>

type_synonym object = "string \<rightharpoonup> jsval"

definition attr :: "object \<Rightarrow> string \<Rightarrow> jsval" where
  "attr obj k = (case obj k of None \<Rightarrow> Undefined | Some v \<Rightarrow> v)"

text \<open>
  The Number values that occur: NaN, the finite values (all of them integers here) and
  positive infinity.
\<close>

datatype number = NaN | Num int | Infinity

text \<open>\<^verbatim>\<open>==\<close>, \<^verbatim>\<open>>\<close> and \<^verbatim>\<open><\<close> on Number values: every comparison with NaN is false.\<close>

fun num_eq :: "number \<Rightarrow> number \<Rightarrow> bool" where
  "num_eq (Num a) (Num b) = (a = b)"
| "num_eq Infinity Infinity = True"
| "num_eq _ _ = False"

fun num_gt :: "number \<Rightarrow> number \<Rightarrow> bool" where
  "num_gt (Num a) (Num b) = (b < a)"
| "num_gt Infinity (Num b) = True"
| "num_gt _ _ = False"

fun num_lt :: "number \<Rightarrow> number \<Rightarrow> bool" where
  "num_lt (Num a) (Num b) = (a < b)"
| "num_lt (Num a) Infinity = True"
| "num_lt _ _ = False"

text \<open>\<^verbatim>\<open>>\<close> on two strings: lexicographic on the character codes, a proper prefix is smaller.\<close>

fun str_gt :: "string \<Rightarrow> string \<Rightarrow> bool" where
  "str_gt [] ys = False"
| "str_gt (x # xs) [] = True"
| "str_gt (x # xs) (y # ys) =
     (if (of_char x :: nat) = of_char y then str_gt xs ys else (of_char y :: nat) < of_char x)"

text \<open>
  \<^verbatim>\<open>xs[i]\<close>: an array read out of range gives \<^verbatim>\<open>undefined\<close> (here \<open>None\<close>). With
  \<^verbatim>\<open>undefined\<close> on a side, \<^verbatim>\<open>==\<close> holds only between two \<^verbatim>\<open>undefined\<close> and \<^verbatim>\<open>>\<close> never
  holds (\<^verbatim>\<open>undefined\<close> compares as NaN).
\<close>

definition at :: "'a list \<Rightarrow> nat \<Rightarrow> 'a option" where
  "at xs i = (if i < length xs then Some (xs ! i) else None)"

fun elem_eq :: "('a \<Rightarrow> 'a \<Rightarrow> bool) \<Rightarrow> 'a option \<Rightarrow> 'a option \<Rightarrow> bool" where
  "elem_eq eq (Some a) (Some b) = eq a b"
| "elem_eq eq None None = True"
| "elem_eq eq _ _ = False"

fun elem_gt :: "('a \<Rightarrow> 'a \<Rightarrow> bool) \<Rightarrow> 'a option \<Rightarrow> 'a option \<Rightarrow> bool" where
  "elem_gt gt (Some a) (Some b) = gt a b"
| "elem_gt gt _ _ = False"

subsection \<open>Splitting and validating a version string\<close>

text \<open>
  \<^verbatim>\<open>s.split(sep)\<close> for a one-character separator: the pieces between the separators, so
  the empty string splits into one empty piece and \<^verbatim>\<open>"1..2"\<close> into three pieces.
\<close>

fun split_acc :: "char \<Rightarrow> string \<Rightarrow> string \<Rightarrow> string list" where
  "split_acc sep cur [] = [cur]"
| "split_acc sep cur (c # cs) =
     (if c = sep then cur # split_acc sep [] cs else split_acc sep (cur @ [c]) cs)"

definition js_split :: "string \<Rightarrow> char \<Rightarrow> string list" where
  "js_split s sep = split_acc sep [] s"

text \<open>The character classes \<^verbatim>\<open>\d\<close> (the ASCII digits) and \<^verbatim>\<open>[A-Za-z]\<close>.\<close>

definition is_digit :: "char \<Rightarrow> bool" where
  "is_digit c = (48 \<le> (of_char c :: nat) \<and> (of_char c :: nat) \<le> 57)"

definition is_alpha :: "char \<Rightarrow> bool" where
  "is_alpha c = ((65 \<le> (of_char c :: nat) \<and> (of_char c :: nat) \<le> 90)
     \<or> (97 \<le> (of_char c :: nat) \<and> (of_char c :: nat) \<le> 122))"

text \<open>
  \<^verbatim>\<open>(lexicographical ? /^\d+[A-Za-z]*$/ : /^\d+$/).test(x)\<close>. The two classes are
  disjoint, so the first pattern matches exactly when the longest run of digits at the
  start is not empty and everything after it is a letter.
\<close>

definition isValidPart :: "bool \<Rightarrow> string \<Rightarrow> bool" where
  "isValidPart lexicographical x =
     (if lexicographical
      then takeWhile is_digit x \<noteq> [] \<and> list_all is_alpha (dropWhile is_digit x)
      else x \<noteq> [] \<and> list_all is_digit x)"

subsection \<open>Number of a string of digits\<close>

text \<open>
  \<^verbatim>\<open>Number(x)\<close> is only applied to parts that have passed \<^verbatim>\<open>/^\d+$/\<close>. On such a string it
  is the double nearest to the decimal value: the value itself below \<open>2^53\<close>, else the
  value rounded to 53 significant bits, ties to the even significand, and infinity when
  that reaches \<open>2^1024\<close> (the correctly rounded conversion, as the engines compute it).
  \<open>bits n\<close> is the length of \<open>n\<close> in binary.
\<close>

definition digit_value :: "char \<Rightarrow> nat" where
  "digit_value c = of_char c - 48"

definition decimal :: "string \<Rightarrow> nat" where
  "decimal x = foldl (\<lambda>n c. 10 * n + digit_value c) 0 x"

fun bits :: "nat \<Rightarrow> nat" where
  "bits n = (if n = 0 then 0 else Suc (bits (n div 2)))"

declare bits.simps [simp del]

definition nearest_double :: "nat \<Rightarrow> number" where
  "nearest_double n =
     (if n < 2 ^ 53 then Num (int n)
      else let sh = bits n - 53;
               q = n div 2 ^ sh;
               r = n mod 2 ^ sh;
               half = 2 ^ (sh - 1);
               q' = (if half < r \<or> (r = half \<and> odd q) then q + 1 else q);
               m = q' * 2 ^ sh
           in if 2 ^ 1024 \<le> m then Infinity else Num (int m))"

definition Number :: "string \<Rightarrow> number" where
  "Number x = nearest_double (decimal x)"

subsection \<open>versionCompare\<close>

record options =
  lexicographical :: bool
  zeroExtend :: bool

text \<open>\<^verbatim>\<open>while (parts.length < n) parts.push("0");\<close>\<close>

function push_zeros :: "string list \<Rightarrow> nat \<Rightarrow> string list" where
  "push_zeros parts n = (if length parts < n then push_zeros (parts @ [''0'']) n else parts)"
  by pat_completeness auto
termination
  by (relation "measure (\<lambda>(parts, n). n - length parts)") auto

declare push_zeros.simps [simp del]

text \<open>
  The \<^verbatim>\<open>for\<close> loop of \<^verbatim>\<open>versionCompare\<close> from index \<open>i\<close> on, with the two checks that
  follow it. \<open>eq\<close> and \<open>gt\<close> are \<^verbatim>\<open>==\<close> and \<^verbatim>\<open>>\<close> on the parts: on numbers after
  \<^verbatim>\<open>map(Number)\<close>, on strings in lexicographical mode.
\<close>

function versionCompare_loop ::
  "('a \<Rightarrow> 'a \<Rightarrow> bool) \<Rightarrow> ('a \<Rightarrow> 'a \<Rightarrow> bool) \<Rightarrow> 'a list \<Rightarrow> 'a list \<Rightarrow> nat \<Rightarrow> number" where
  "versionCompare_loop eq gt v1parts v2parts i =
     (if i < length v1parts then
        (if length v2parts = i then Num 1
         else if elem_eq eq (at v1parts i) (at v2parts i)
           then versionCompare_loop eq gt v1parts v2parts (Suc i)
         else if elem_gt gt (at v1parts i) (at v2parts i) then Num 1
         else Num (- 1))
      else if length v1parts \<noteq> length v2parts then Num (- 1)
      else Num 0)"
  by pat_completeness auto
termination
  by (relation "measure (\<lambda>(eq, gt, v1parts, v2parts, i). length v1parts - i)") auto

declare versionCompare_loop.simps [simp del]

text \<open>
  \<^verbatim>\<open>versionCompare(v1, v2, options)\<close>; \<open>None\<close> is the call without \<^verbatim>\<open>options\<close>, and the
  two fields of \<open>options\<close> hold the truthiness of the attributes. \<open>option_set f opts\<close> is
  \<^verbatim>\<open>options && options.f\<close> as a condition.
\<close>

definition option_set :: "(options \<Rightarrow> bool) \<Rightarrow> options option \<Rightarrow> bool" where
  "option_set f opts = (case opts of None \<Rightarrow> False | Some opt \<Rightarrow> f opt)"

definition versionCompare :: "string \<Rightarrow> string \<Rightarrow> options option \<Rightarrow> number" where
  "versionCompare v1 v2 opts =
     (let lexicographical = option_set lexicographical opts;
          zeroExtend = option_set zeroExtend opts;
          v1parts = js_split v1 (CHR ''.'');
          v2parts = js_split v2 (CHR ''.'')
      in if \<not> list_all (isValidPart lexicographical) v1parts
            \<or> \<not> list_all (isValidPart lexicographical) v2parts
         then NaN
         else
           let v1parts = (if zeroExtend then push_zeros v1parts (length v2parts) else v1parts);
               v2parts = (if zeroExtend then push_zeros v2parts (length v1parts) else v2parts)
           in if \<not> lexicographical
              then versionCompare_loop num_eq num_gt (map Number v1parts) (map Number v2parts) 0
              else versionCompare_loop (=) str_gt v1parts v2parts 0)"

subsection \<open>The view model and its message handler\<close>

text \<open>
  A PNotify notice as \<^verbatim>\<open>performCheck\<close> builds it (its attributes \<^verbatim>\<open>text\<close>, \<^verbatim>\<open>title\<close>,
  \<^verbatim>\<open>type\<close> and \<^verbatim>\<open>delay\<close>), and the view model: the three
  observables \<^verbatim>\<open>self.connectionStatus\<close>, \<^verbatim>\<open>self.iconTitle\<close> and
  \<^verbatim>\<open>self.connectionStatusDescription\<close>, and \<^verbatim>\<open>self.notify\<close> (unset until a notice is
  stored there).
\<close>

record pnotify =
  notice_text :: string
  notice_title :: string
  notice_type :: string
  notice_delay :: nat

record view_model =
  connectionStatus :: string
  iconTitle :: string
  connectionStatusDescription :: string
  notify :: "pnotify option"

definition KarmenViewModel :: view_model where
  "KarmenViewModel =
     \<lparr>connectionStatus = ''karmen-status-connecting'',
      iconTitle = ''<span class='' @ [CHR 0x27] @ ''text-info'' @ [CHR 0x27] @ ''>Loading</span>'',
      connectionStatusDescription = ''Loading and connecting to Karmen cloud.'',
      notify = None\<rparr>"

text \<open>
  \<^verbatim>\<open>self.onDataUpdaterPluginMessage(plugin, data)\<close>, with the view model passed in and
  returned. The local \<^verbatim>\<open>status_description\<close> is assigned and never read.
\<close>

definition onDataUpdaterPluginMessage :: "view_model \<Rightarrow> string \<Rightarrow> object \<Rightarrow> view_model" where
  \<open>onDataUpdaterPluginMessage self plugin data =
     (if plugin \<noteq> ''karmen'' then self
      else if truthy (attr data ''connectionStatus'') then
        (let status = attr data ''connectionStatus'';
             self = self\<lparr>connectionStatus := ''karmen-status-'' @ to_string status\<rparr>;
             self = self\<lparr>iconTitle := to_string status\<rparr>;
             status_description =
               (if truthy (attr data ''error'')
                then to_string (attr data ''error'')
                  @ (if truthy (attr data ''advise'')
                     then ''<p>'' @ to_string (attr data ''advise'') @ ''</p>'' else [])
                else [])
         in if eq_literal status ''connected'' then
              self\<lparr>iconTitle := ''<span class="text-success">Connected</span>'',
                   connectionStatusDescription :=
                     ''Click the icon to go to see your printer in Karmen Cloud.''\<rparr>
            else if eq_literal status ''connecting'' then
              self\<lparr>iconTitle := ''<span class="text-warning">Connecting ...</span>'',
                   connectionStatusDescription :=
                     ''Connecting to Karmen servers. ''
                     @ (if truthy (attr data ''error'')
                        then ''<p>Last error was:</p> <pre>'' @ to_string (attr data ''error'')
                          @ ''</pre>''
                        else [])\<rparr>
            else if eq_literal status ''disconnecting'' then
              self\<lparr>iconTitle := ''<span class="text-warning">Disconnecting ...</span>'',
                   connectionStatusDescription := ''Disconnecting from Karmen.''\<rparr>
            else if eq_literal status ''disconnected'' then
              (if truthy (attr data ''error'') then
                 self\<lparr>iconTitle := ''<span class="text-error">Connection error</span>'',
                      connectionStatusDescription :=
                        ''<p class="text-error">'' @ to_string (attr data ''advise'')
                        @ ''</p><p>Error:<pre>'' @ to_string (attr data ''error'')
                        @ ''.</pre></p>''\<rparr>
               else
                 self\<lparr>iconTitle := ''<span class="text-warning">Disconnected</span>'',
                      connectionStatusDescription :=
                        ''<p class="text-error">'' @ to_string (attr data ''advise'')
                        @ ''</p>''\<rparr>)
            else self)
      else self)\<close>

subsection \<open>performCheck\<close>

text \<open>
  The continuation that \<^verbatim>\<open>performCheck\<close> hands to \<^verbatim>\<open>OctoPrint.system.getInfo()\<close>, run on
  \<^verbatim>\<open>info.systeminfo\<close>. It returns the view model and the notices it has constructed
  (constructing one shows it). \<^verbatim>\<open>version.split\<close> throws a TypeError when the version
  read from \<^verbatim>\<open>systeminfo\<close> is not a string. A line of the template literal ends in a
  line feed and the next one starts with 24 spaces.
\<close>

datatype error = TypeError

definition text_template :: "string \<Rightarrow> string" where
  "text_template version =
     ''This version of Karmen Connector is not supported in Octoprint version '' @ version
     @ ''.'' @ [CHR 0x0A] @ replicate 24 (CHR '' '')
     @ ''Please upgrade to Octoprint 1.8+ or use legacy plugin.''
     @ [CHR 0x0A] @ replicate 24 (CHR '' '')
     @ ''Check plugin settings for details.''"

definition performCheck :: "view_model \<Rightarrow> object \<Rightarrow> error + view_model \<times> pnotify list" where
  "performCheck self systeminfo =
     (case attr systeminfo ''octoprint.version'' of
        Str version \<Rightarrow>
          if num_lt (versionCompare version ''1.8'' None) (Num 0) then
            let n = \<lparr>notice_text = text_template version, notice_title = ''Karmen Connector'',
                     notice_type = ''error'', notice_delay = 10000\<rparr>
            in Inr (self\<lparr>notify := Some n\<rparr>, [n])
          else Inr (self, [])
      | _ \<Rightarrow> Inl TypeError)"

section \<open>Properties of versionCompare\<close>

subsection \<open>The padding loop and the comparison loop\<close>

lemma push_zeros_replicate: "push_zeros parts n = parts @ replicate (n - length parts) ''0''"
proof (induction parts n rule: push_zeros.induct)
  case (1 parts n)
  show ?case
  proof (cases "length parts < n")
    case True
    then have "n - length parts = Suc (n - length (parts @ [''0'']))" by simp
    with True 1 show ?thesis
      by (subst push_zeros.simps) (simp del: replicate_Suc add: replicate_Suc [symmetric])
  next
    case False
    then show ?thesis by (subst push_zeros.simps) simp
  qed
qed

lemma pad_to_equal:
  "b = a @ replicate k z \<Longrightarrow>
     a @ replicate (length b - length a) z = b @ replicate (length a - length b) z"
  by simp

lemma loop_range:
  "versionCompare_loop eq gt xs ys i = Num (- 1) \<or> versionCompare_loop eq gt xs ys i = Num 0
     \<or> versionCompare_loop eq gt xs ys i = Num 1"
  by (induction eq gt xs ys i rule: versionCompare_loop.induct)
    (subst (1 2 3) versionCompare_loop.simps, simp)

lemma loop_same:
  assumes "\<forall>x \<in> set xs. eq x x"
  shows "versionCompare_loop eq gt xs xs i = Num 0"
  using assms
proof (induction "length xs - i" arbitrary: i)
  case 0
  then show ?case by (subst versionCompare_loop.simps) simp
next
  case (Suc k)
  then have i: "i < length xs" by simp
  then have "eq (xs ! i) (xs ! i)" using Suc.prems by simp
  moreover have "versionCompare_loop eq gt xs xs (Suc i) = Num 0"
    using Suc.hyps Suc.prems by (intro Suc.hyps(1)) auto
  ultimately show ?case using i
    by (subst versionCompare_loop.simps) (simp add: at_def)
qed

lemma loop_left_shorter:
  assumes "\<forall>x \<in> set xs. eq x x"
  shows "versionCompare_loop eq gt xs (xs @ p # ps) i = Num (- 1)"
  using assms
proof (induction "length xs - i" arbitrary: i)
  case 0
  then show ?case by (subst versionCompare_loop.simps) simp
next
  case (Suc k)
  then have i: "i < length xs" by simp
  then have "eq (xs ! i) (xs ! i)" using Suc.prems by simp
  moreover have "versionCompare_loop eq gt xs (xs @ p # ps) (Suc i) = Num (- 1)"
    using Suc.hyps Suc.prems by (intro Suc.hyps(1)) auto
  ultimately show ?case using i
    by (subst versionCompare_loop.simps) (simp add: at_def nth_append)
qed

lemma loop_right_shorter:
  assumes "\<forall>y \<in> set ys. eq y y" and "i \<le> length ys"
  shows "versionCompare_loop eq gt (ys @ p # ps) ys i = Num 1"
  using assms
proof (induction "length ys - i" arbitrary: i)
  case 0
  then show ?case by (subst versionCompare_loop.simps) simp
next
  case (Suc k)
  then have i: "i < length ys" by simp
  then have "eq (ys ! i) (ys ! i)" using Suc.prems by simp
  moreover have "versionCompare_loop eq gt (ys @ p # ps) ys (Suc i) = Num 1"
    using Suc.hyps Suc.prems i by (intro Suc.hyps(1)) auto
  ultimately show ?case using i
    by (subst versionCompare_loop.simps) (simp add: at_def nth_append)
qed

text \<open>\<^verbatim>\<open>Number\<close> of a part is never NaN, so it is \<^verbatim>\<open>==\<close> to itself.\<close>

lemma Number_eq_self: "num_eq (Number x) (Number x)"
  by (simp add: Number_def nearest_double_def Let_def)

text \<open>The four results of \<^verbatim>\<open>versionCompare\<close>, and which of them is below zero.\<close>

lemma versionCompare_range:
  "versionCompare v1 v2 opts = NaN \<or> versionCompare v1 v2 opts = Num (- 1)
     \<or> versionCompare v1 v2 opts = Num 0 \<or> versionCompare v1 v2 opts = Num 1"
  using loop_range [of num_eq num_gt] loop_range [of "(=)" str_gt]
  by (simp add: versionCompare_def Let_def)

lemma negative_iff_less:
  "num_lt (versionCompare v1 v2 opts) (Num 0) = (versionCompare v1 v2 opts = Num (- 1))"
  using versionCompare_range [of v1 v2 opts] by auto

text \<open>The equations that evaluate a comparison of two given version strings.\<close>

lemmas eval_version =
  versionCompare_def option_set_def js_split_def isValidPart_def is_digit_def is_alpha_def
  Number_def decimal_def digit_value_def nearest_double_def versionCompare_loop.simps at_def
  push_zeros.simps

lemmas eval_handler = onDataUpdaterPluginMessage_def attr_def Let_def

subsection \<open>Claims about versionCompare\<close>

text \<open>
  Claim C1. Without \<^verbatim>\<open>zeroExtend\<close>, for two version strings all of whose parts are valid
  in the active mode: when the parts of \<open>v1\<close> are a proper prefix of the parts of \<open>v2\<close>
  the result is \<open>-1\<close> (less), and when the parts of \<open>v2\<close> are a proper prefix of the parts
  of \<open>v1\<close> the result is \<open>1\<close> (greater).
\<close>

theorem versionCompare_proper_prefix:
  assumes "\<not> option_set zeroExtend opts"
    and "list_all (isValidPart (option_set lexicographical opts)) (js_split v1 (CHR ''.''))"
    and "list_all (isValidPart (option_set lexicographical opts)) (js_split v2 (CHR ''.''))"
  shows "(js_split v2 (CHR ''.'') = js_split v1 (CHR ''.'') @ p # ps
            \<longrightarrow> versionCompare v1 v2 opts = Num (- 1))
       \<and> (js_split v1 (CHR ''.'') = js_split v2 (CHR ''.'') @ p # ps
            \<longrightarrow> versionCompare v1 v2 opts = Num 1)"
proof (intro conjI impI)
  let ?a = "js_split v1 (CHR ''.'')" and ?b = "js_split v2 (CHR ''.'')"
  assume b: "?b = ?a @ p # ps"
  have "versionCompare_loop num_eq num_gt (map Number ?a) (map Number ?a @ Number p # map Number ps) 0
          = Num (- 1)"
    by (rule loop_left_shorter) (simp add: Number_eq_self)
  moreover have "versionCompare_loop (=) str_gt ?a (?a @ p # ps) 0 = Num (- 1)"
    by (rule loop_left_shorter) simp
  ultimately show "versionCompare v1 v2 opts = Num (- 1)"
    using assms by (simp add: versionCompare_def Let_def b)
next
  let ?a = "js_split v1 (CHR ''.'')" and ?b = "js_split v2 (CHR ''.'')"
  assume a: "?a = ?b @ p # ps"
  have "versionCompare_loop num_eq num_gt (map Number ?b @ Number p # map Number ps) (map Number ?b) 0
          = Num 1"
    by (rule loop_right_shorter) (simp_all add: Number_eq_self)
  moreover have "versionCompare_loop (=) str_gt (?b @ p # ps) ?b 0 = Num 1"
    by (rule loop_right_shorter) simp_all
  ultimately show "versionCompare v1 v2 opts = Num 1"
    using assms by (simp add: versionCompare_def Let_def a)
qed

text \<open>The two comparisons the claim names: \<^verbatim>\<open>"1.2"\<close> against \<^verbatim>\<open>"1.2.0"\<close>, both ways.\<close>

theorem versionCompare_proper_prefix_witness:
  "versionCompare ''1.2'' ''1.2.0'' None = Num (- 1) \<and> versionCompare ''1.2.0'' ''1.2'' None = Num 1"
  using versionCompare_proper_prefix [of None "''1.2''" "''1.2.0''" "''0''" "[]"]
    versionCompare_proper_prefix [of None "''1.2.0''" "''1.2''" "''0''" "[]"]
  by (simp add: option_set_def js_split_def isValidPart_def is_digit_def)

text \<open>
  Claim C3. When some part of \<open>v1\<close> or of \<open>v2\<close> fails \<^verbatim>\<open>isValidPart\<close> in the active mode,
  \<^verbatim>\<open>versionCompare\<close> returns NaN.
\<close>

theorem versionCompare_invalid_part_NaN:
  assumes "\<exists>p \<in> set (js_split v1 (CHR ''.'')) \<union> set (js_split v2 (CHR ''.'')).
             \<not> isValidPart (option_set lexicographical opts) p"
  shows "versionCompare v1 v2 opts = NaN"
  using assms by (auto simp: versionCompare_def Let_def list_all_iff)

text \<open>\<^verbatim>\<open>versionCompare("1.a", "1.0")\<close> is NaN.\<close>

theorem versionCompare_invalid_part_NaN_witness:
  "versionCompare ''1.a'' ''1.0'' None = NaN"
  using versionCompare_invalid_part_NaN [of "''1.a''" "''1.0''" None]
  by (simp add: option_set_def js_split_def isValidPart_def is_digit_def)

text \<open>
  Claim C8. \<^verbatim>\<open>versionCompare(v, v, options)\<close> is \<open>0\<close> (equal) for every version string
  \<open>v\<close> all of whose parts are valid in the active mode, whatever the options.
\<close>

theorem versionCompare_reflexive:
  assumes "list_all (isValidPart (option_set lexicographical opts)) (js_split v (CHR ''.''))"
  shows "versionCompare v v opts = Num 0"
proof -
  let ?parts = "js_split v (CHR ''.'')"
  have pad: "push_zeros ?parts (length ?parts) = ?parts"
    by (simp add: push_zeros_replicate)
  have num: "versionCompare_loop num_eq num_gt (map Number ?parts) (map Number ?parts) 0 = Num 0"
    by (rule loop_same) (simp add: Number_eq_self)
  have str: "versionCompare_loop (=) str_gt ?parts ?parts 0 = Num 0"
    by (rule loop_same) simp
  show ?thesis using assms pad num str
    by (simp add: versionCompare_def Let_def)
qed

theorem versionCompare_reflexive_witness:
  "versionCompare ''1.8.1'' ''1.8.1'' None = Num 0
   \<and> versionCompare ''1.10rc'' ''1.10rc'' (Some \<lparr>lexicographical = True, zeroExtend = False\<rparr>) = Num 0"
  using versionCompare_reflexive [of None "''1.8.1''"]
    versionCompare_reflexive [of "Some \<lparr>lexicographical = True, zeroExtend = False\<rparr>" "''1.10rc''"]
  by (simp add: option_set_def js_split_def isValidPart_def is_digit_def is_alpha_def)

text \<open>
  Claim C9. With \<^verbatim>\<open>zeroExtend\<close> set and all parts valid, the loop compares the two part
  sequences after the shorter one has been extended with \<^verbatim>\<open>"0"\<close> parts to the length of
  the longer one; so when one sequence is the other followed by \<open>k\<close> parts \<^verbatim>\<open>"0"\<close>, the
  result is \<open>0\<close> (equal).
\<close>

theorem versionCompare_zeroExtend_pads:
  assumes "option_set zeroExtend opts"
    and "list_all (isValidPart (option_set lexicographical opts)) (js_split v1 (CHR ''.''))"
    and "list_all (isValidPart (option_set lexicographical opts)) (js_split v2 (CHR ''.''))"
  shows "versionCompare v1 v2 opts =
           (if option_set lexicographical opts
            then versionCompare_loop (=) str_gt
                   (js_split v1 (CHR ''.'')
                      @ replicate (length (js_split v2 (CHR ''.'')) - length (js_split v1 (CHR ''.''))) ''0'')
                   (js_split v2 (CHR ''.'')
                      @ replicate (length (js_split v1 (CHR ''.'')) - length (js_split v2 (CHR ''.''))) ''0'') 0
            else versionCompare_loop num_eq num_gt
                   (map Number (js_split v1 (CHR ''.'')
                      @ replicate (length (js_split v2 (CHR ''.'')) - length (js_split v1 (CHR ''.''))) ''0''))
                   (map Number (js_split v2 (CHR ''.'')
                      @ replicate (length (js_split v1 (CHR ''.'')) - length (js_split v2 (CHR ''.''))) ''0'')) 0)
       \<and> (js_split v2 (CHR ''.'') = js_split v1 (CHR ''.'') @ replicate k ''0''
            \<longrightarrow> versionCompare v1 v2 opts = Num 0)
       \<and> (js_split v1 (CHR ''.'') = js_split v2 (CHR ''.'') @ replicate k ''0''
            \<longrightarrow> versionCompare v1 v2 opts = Num 0)"
proof -
  let ?a = "js_split v1 (CHR ''.'')" and ?b = "js_split v2 (CHR ''.'')"
  let ?a' = "?a @ replicate (length ?b - length ?a) ''0''"
  let ?b' = "?b @ replicate (length ?a - length ?b) ''0''"
  let ?lex = "option_set lexicographical opts"
  have second: "push_zeros ?b (length (push_zeros ?a (length ?b))) = ?b'"
    by (simp add: push_zeros_replicate)
  have unfolded: "versionCompare v1 v2 opts =
      (if ?lex then versionCompare_loop (=) str_gt ?a' ?b' 0
       else versionCompare_loop num_eq num_gt (map Number ?a') (map Number ?b') 0)"
    using assms second
    by (simp add: versionCompare_def Let_def push_zeros_replicate del: map_append map_replicate)
  have same: "versionCompare_loop (=) str_gt xs xs 0 = Num 0"
      "versionCompare_loop num_eq num_gt (map Number xs) (map Number xs) 0 = Num 0" for xs
    by (rule loop_same, simp add: Number_eq_self)+
  have "versionCompare v1 v2 opts = Num 0" if "?b = ?a @ replicate k ''0''"
  proof -
    have "?a' = ?b'" using that by (rule pad_to_equal)
    then show ?thesis unfolding unfolded by (simp only: same if_cancel)
  qed
  moreover have "versionCompare v1 v2 opts = Num 0" if "?a = ?b @ replicate k ''0''"
  proof -
    have "?b' = ?a'" using that by (rule pad_to_equal)
    then show ?thesis unfolding unfolded by (simp only: same if_cancel)
  qed
  ultimately show ?thesis using unfolded by blast
qed

text \<open>
  \<^verbatim>\<open>versionCompare("1.2", "1.2.0", {zeroExtend: true})\<close> is \<open>0\<close>, and so is the comparison
  of \<^verbatim>\<open>"1.2.0.0"\<close> with \<^verbatim>\<open>"1.2"\<close> in lexicographical mode.
\<close>

theorem versionCompare_zeroExtend_pads_witness:
  "versionCompare ''1.2'' ''1.2.0'' (Some \<lparr>lexicographical = False, zeroExtend = True\<rparr>) = Num 0
   \<and> versionCompare ''1.2.0.0'' ''1.2'' (Some \<lparr>lexicographical = True, zeroExtend = True\<rparr>) = Num 0"
  using
    versionCompare_zeroExtend_pads
      [of "Some \<lparr>lexicographical = False, zeroExtend = True\<rparr>" "''1.2''" "''1.2.0''" 1,
        THEN conjunct2, THEN conjunct1]
    versionCompare_zeroExtend_pads
      [of "Some \<lparr>lexicographical = True, zeroExtend = True\<rparr>" "''1.2.0.0''" "''1.2''" 2,
        THEN conjunct2, THEN conjunct2]
  by (simp add: option_set_def js_split_def isValidPart_def is_digit_def is_alpha_def
      eval_nat_numeral)

section \<open>Properties of performCheck\<close>

text \<open>
  Claim C4. When \<^verbatim>\<open>systeminfo\<close> holds the version string, the check constructs one notice
  (type \<^verbatim>\<open>"error"\<close>, delay 10000, a text that contains the version) and stores it in
  \<^verbatim>\<open>self.notify\<close> exactly when \<^verbatim>\<open>versionCompare(version, "1.8")\<close> is \<open>-1\<close> (less). The
  comparison has no result but \<open>-1\<close>, \<open>0\<close>, \<open>1\<close> and NaN, and on \<open>0\<close>, \<open>1\<close> and NaN the check
  constructs nothing and leaves the view model as it is.
\<close>

theorem performCheck_notifies_iff_less:
  assumes "attr systeminfo ''octoprint.version'' = Str version"
  shows "performCheck self systeminfo =
           (if versionCompare version ''1.8'' None = Num (- 1)
            then Inr (self\<lparr>notify := Some \<lparr>notice_text = text_template version,
                         notice_title = ''Karmen Connector'', notice_type = ''error'',
                         notice_delay = 10000\<rparr>\<rparr>,
                      [\<lparr>notice_text = text_template version,
                         notice_title = ''Karmen Connector'', notice_type = ''error'',
                         notice_delay = 10000\<rparr>])
            else Inr (self, []))
       \<and> (\<exists>before after. text_template version = before @ version @ after)
       \<and> (versionCompare version ''1.8'' None = Num (- 1) \<or> versionCompare version ''1.8'' None = Num 0
            \<or> versionCompare version ''1.8'' None = Num 1 \<or> versionCompare version ''1.8'' None = NaN)"
proof (intro conjI)
  show "performCheck self systeminfo =
           (if versionCompare version ''1.8'' None = Num (- 1)
            then Inr (self\<lparr>notify := Some \<lparr>notice_text = text_template version,
                         notice_title = ''Karmen Connector'', notice_type = ''error'',
                         notice_delay = 10000\<rparr>\<rparr>,
                      [\<lparr>notice_text = text_template version,
                         notice_title = ''Karmen Connector'', notice_type = ''error'',
                         notice_delay = 10000\<rparr>])
            else Inr (self, []))"
    using assms by (simp add: performCheck_def negative_iff_less Let_def)
  show "\<exists>before after. text_template version = before @ version @ after"
    unfolding text_template_def by (intro exI) (rule refl)
  show "versionCompare version ''1.8'' None = Num (- 1) \<or> versionCompare version ''1.8'' None = Num 0
            \<or> versionCompare version ''1.8'' None = Num 1 \<or> versionCompare version ''1.8'' None = NaN"
    using versionCompare_range [of version "''1.8''" None] by blast
qed

text \<open>
  Version \<^verbatim>\<open>"1.7.9"\<close> compares as less and gets the one notice; version \<^verbatim>\<open>"1.8.1"\<close>
  compares as greater and gets none.
\<close>

theorem performCheck_notifies_iff_less_witness:
  "performCheck KarmenViewModel [''octoprint.version'' \<mapsto> Str ''1.7.9''] =
     Inr (KarmenViewModel\<lparr>notify := Some \<lparr>notice_text = text_template ''1.7.9'',
                         notice_title = ''Karmen Connector'', notice_type = ''error'',
                         notice_delay = 10000\<rparr>\<rparr>,
          [\<lparr>notice_text = text_template ''1.7.9'',
                         notice_title = ''Karmen Connector'', notice_type = ''error'',
                         notice_delay = 10000\<rparr>])
   \<and> versionCompare ''1.7.9'' ''1.8'' None = Num (- 1)
   \<and> performCheck KarmenViewModel [''octoprint.version'' \<mapsto> Str ''1.8.1''] = Inr (KarmenViewModel, [])
   \<and> versionCompare ''1.8.1'' ''1.8'' None = Num 1"
  using
    performCheck_notifies_iff_less
      [of "[''octoprint.version'' \<mapsto> Str ''1.7.9'']" "''1.7.9''" KarmenViewModel, THEN conjunct1]
    performCheck_notifies_iff_less
      [of "[''octoprint.version'' \<mapsto> Str ''1.8.1'']" "''1.8.1''" KarmenViewModel, THEN conjunct1]
  by (simp add: attr_def eval_version)

section \<open>Properties of onDataUpdaterPluginMessage\<close>

text \<open>
  The status \<^verbatim>\<open>["connected"]\<close> is an array and no string, yet it is \<^verbatim>\<open>==\<close> to
  \<^verbatim>\<open>'connected'\<close>: the handler takes the branch of line 114 and rewrites the title and the
  description.
\<close>

lemma array_status_takes_connected_branch:
  \<open>eq_literal (Array [Str ''connected'']) ''connected''
   \<and> onDataUpdaterPluginMessage KarmenViewModel ''karmen''
        [''connectionStatus'' \<mapsto> Array [Str ''connected'']]
     = KarmenViewModel\<lparr>connectionStatus := ''karmen-status-connected'',
         iconTitle := ''<span class="text-success">Connected</span>'',
         connectionStatusDescription :=
           ''Click the icon to go to see your printer in Karmen Cloud.''\<rparr>\<close>
  by (simp add: onDataUpdaterPluginMessage_def attr_def Let_def)

text \<open>
  Claim C7. A message for another plugin than \<^verbatim>\<open>"karmen"\<close> leaves the view model, and so
  its three observables, as it was, whatever the message holds.
\<close>

theorem foreign_plugin_message_ignored:
  assumes "plugin \<noteq> ''karmen''"
  shows "onDataUpdaterPluginMessage self plugin data = self"
  using assms by (simp add: onDataUpdaterPluginMessage_def)

theorem foreign_plugin_message_ignored_witness:
  "onDataUpdaterPluginMessage KarmenViewModel ''announcements''
     [''connectionStatus'' \<mapsto> Str ''connected''] = KarmenViewModel"
  using foreign_plugin_message_ignored
    [of "''announcements''" KarmenViewModel "[''connectionStatus'' \<mapsto> Str ''connected'']"]
  by simp

text \<open>
  Claim C10. A message for \<^verbatim>\<open>"karmen"\<close> whose \<^verbatim>\<open>connectionStatus\<close> is not truthy (absent,
  \<^verbatim>\<open>null\<close>, \<^verbatim>\<open>false\<close> or the empty string) leaves the view model as it was.
\<close>

theorem falsy_status_ignored:
  assumes "\<not> truthy (attr data ''connectionStatus'')"
  shows "onDataUpdaterPluginMessage self ''karmen'' data = self"
  using assms by (simp add: onDataUpdaterPluginMessage_def)

theorem falsy_status_ignored_witness:
  "onDataUpdaterPluginMessage KarmenViewModel ''karmen'' [''error'' \<mapsto> Str ''timeout''] = KarmenViewModel
   \<and> onDataUpdaterPluginMessage KarmenViewModel ''karmen'' [''connectionStatus'' \<mapsto> Str []]
       = KarmenViewModel
   \<and> onDataUpdaterPluginMessage KarmenViewModel ''karmen'' [''connectionStatus'' \<mapsto> Null]
       = KarmenViewModel"
  using falsy_status_ignored [of "[''error'' \<mapsto> Str ''timeout'']" KarmenViewModel]
    falsy_status_ignored [of "[''connectionStatus'' \<mapsto> Str []]" KarmenViewModel]
    falsy_status_ignored [of "[''connectionStatus'' \<mapsto> Null]" KarmenViewModel]
  by (simp add: attr_def)

text \<open>
  Claim C2, as the code has it. For a message for \<^verbatim>\<open>"karmen"\<close> whose \<^verbatim>\<open>connectionStatus\<close>
  (absent, \<^verbatim>\<open>null\<close>, a boolean, a string or an array of such values) is \<^verbatim>\<open>==\<close> to none of
  the four strings \<^verbatim>\<open>connected\<close>, \<^verbatim>\<open>connecting\<close>, \<^verbatim>\<open>disconnecting\<close> and \<^verbatim>\<open>disconnected\<close>,
  so neither one of the four strings nor an array whose string conversion is one of
  them, the description stays as it was; when the status is truthy the status class
  becomes \<^verbatim>\<open>karmen-status-\<close> followed by the string conversion of the status and the title
  becomes that string, and otherwise nothing changes.
\<close>

theorem unrecognized_status_keeps_description:
  assumes "\<not> eq_literal (attr data ''connectionStatus'') ''connected''"
    and "\<not> eq_literal (attr data ''connectionStatus'') ''connecting''"
    and "\<not> eq_literal (attr data ''connectionStatus'') ''disconnecting''"
    and "\<not> eq_literal (attr data ''connectionStatus'') ''disconnected''"
  shows "onDataUpdaterPluginMessage self ''karmen'' data =
           (if truthy (attr data ''connectionStatus'')
            then self\<lparr>connectionStatus := ''karmen-status-'' @ to_string (attr data ''connectionStatus''),
                      iconTitle := to_string (attr data ''connectionStatus'')\<rparr>
            else self)
       \<and> connectionStatusDescription (onDataUpdaterPluginMessage self ''karmen'' data)
           = connectionStatusDescription self"
  using assms by (simp add: onDataUpdaterPluginMessage_def Let_def)

text \<open>
  The string \<^verbatim>\<open>"paused"\<close>, and the array \<^verbatim>\<open>["connected", "paused"]\<close>, which converts to
  \<^verbatim>\<open>"connected,paused"\<close>.
\<close>

theorem unrecognized_status_keeps_description_witness:
  "onDataUpdaterPluginMessage KarmenViewModel ''karmen''
      [''connectionStatus'' \<mapsto> Str ''paused'', ''error'' \<mapsto> Str ''timeout'']
     = KarmenViewModel\<lparr>connectionStatus := ''karmen-status-paused'', iconTitle := ''paused''\<rparr>
   \<and> onDataUpdaterPluginMessage KarmenViewModel ''karmen''
      [''connectionStatus'' \<mapsto> Array [Str ''connected'', Str ''paused'']]
     = KarmenViewModel\<lparr>connectionStatus := ''karmen-status-connected,paused'',
         iconTitle := ''connected,paused''\<rparr>"
  using unrecognized_status_keeps_description
    [of "[''connectionStatus'' \<mapsto> Str ''paused'', ''error'' \<mapsto> Str ''timeout'']" KarmenViewModel]
    unrecognized_status_keeps_description
    [of "[''connectionStatus'' \<mapsto> Array [Str ''connected'', Str ''paused'']]" KarmenViewModel]
  by (simp add: attr_def)

text \<open>
  The status \<^verbatim>\<open>"paused"\<close> is none of the four, and on the initial view model the handler
  changes the status class and the title.
\<close>

theorem unrecognized_status_changes_class_and_title:
  "onDataUpdaterPluginMessage KarmenViewModel ''karmen'' [''connectionStatus'' \<mapsto> Str ''paused'']
     = KarmenViewModel\<lparr>connectionStatus := ''karmen-status-paused'', iconTitle := ''paused''\<rparr>
   \<and> connectionStatus KarmenViewModel \<noteq> ''karmen-status-paused''
   \<and> iconTitle KarmenViewModel \<noteq> ''paused''"
  by (simp add: eval_handler KarmenViewModel_def)

text \<open>
  Claim C5, as the code has it. For each of the four statuses \<open>s\<close>, the status class the
  handler sets is \<^verbatim>\<open>karmen-status-\<close> followed by \<open>s\<close>.
\<close>

theorem status_class_karmen_prefix:
  assumes "attr data ''connectionStatus'' = Str s"
    and "s \<in> set [''connecting'', ''connected'', ''disconnecting'', ''disconnected'']"
  shows "connectionStatus (onDataUpdaterPluginMessage self ''karmen'' data) = ''karmen-status-'' @ s"
  using assms by (auto simp: onDataUpdaterPluginMessage_def Let_def)

theorem status_class_karmen_prefix_witness:
  "connectionStatus (onDataUpdaterPluginMessage KarmenViewModel ''karmen''
      [''connectionStatus'' \<mapsto> Str ''disconnecting'']) = ''karmen-status-disconnecting''"
  using status_class_karmen_prefix
    [of "[''connectionStatus'' \<mapsto> Str ''disconnecting'']" "''disconnecting''" KarmenViewModel]
  by (simp add: attr_def)

text \<open>For the status \<^verbatim>\<open>"connected"\<close> the status class is not \<^verbatim>\<open>"status-connected"\<close>.\<close>

theorem status_class_not_bare_prefix:
  "connectionStatus (onDataUpdaterPluginMessage KarmenViewModel ''karmen''
      [''connectionStatus'' \<mapsto> Str ''connected'']) = ''karmen-status-connected''
   \<and> ''karmen-status-connected'' \<noteq> ''status-'' @ ''connected''"
  by (simp add: eval_handler)

text \<open>
  Claim C6, where the code departs from it. For the status \<^verbatim>\<open>"disconnected"\<close> with no
  \<^verbatim>\<open>advise\<close> attribute, the description holds the text \<^verbatim>\<open>undefined\<close> in the place of the
  advice, with and without an \<^verbatim>\<open>error\<close> attribute.
\<close>

theorem disconnected_without_advise_renders_undefined:
  \<open>connectionStatusDescription (onDataUpdaterPluginMessage KarmenViewModel ''karmen''
      [''connectionStatus'' \<mapsto> Str ''disconnected''])
     = ''<p class="text-error">undefined</p>''
   \<and> connectionStatusDescription (onDataUpdaterPluginMessage KarmenViewModel ''karmen''
      [''connectionStatus'' \<mapsto> Str ''disconnected'', ''error'' \<mapsto> Str ''timeout''])
     = ''<p class="text-error">undefined</p><p>Error:<pre>timeout.</pre></p>''\<close>
  by (simp add: eval_handler)

end
